theory Spec2Isabelle
  imports Complex_Main
begin

section \<open>Values, schemas and violations\<close>

text \<open>
  The Python values that reach the validator: the items of a row are either tokens of the
  input (strings, or values that were already typed) or what \<^verbatim>\<open>ast.literal_eval\<close>
  made of them. A finite float is represented by the rational number it denotes (every
  double is one); rounding to the nearest double is not modelled.
\<close>

datatype pyfloat = Finite rat | PosInf | NegInf | NaN

datatype pyval =
    PNone
  | PBool bool
  | PInt int
  | PFloat pyfloat
  | PStr string
  | PList "pyval list"
  | PDict "(pyval \<times> pyval) list"

text \<open>
  A field descriptor is a dictionary with the keys \<^verbatim>\<open>name\<close>, \<^verbatim>\<open>type\<close> and, optionally,
  \<^verbatim>\<open>mode\<close>; the source reads the last one with \<^verbatim>\<open>field.get('mode', 'NULLABLE')\<close>.
\<close>

record field =
  field_name :: string
  field_type :: string
  field_mode :: "string option"

definition get_mode :: "field \<Rightarrow> string" where
  "get_mode fld = (case field_mode fld of None \<Rightarrow> ''NULLABLE'' | Some m \<Rightarrow> m)"

text \<open>
  The three \<^verbatim>\<open>raise SchemaValidationException(...)\<close> sites of \<^verbatim>\<open>validate_data\<close>, in the
  order of the source: the row length, the required field that is missing, the value that
  cannot be converted. The message of the source is kept as the data it is built from.
\<close>

datatype violation =
    ArityMismatch
  | MissingRequiredField string
  | TypeMismatch string pyval string

datatype exn =
    ValueError
  | TypeError
  | SyntaxError
  | OverflowError
  | SchemaValidationException violation

text \<open>
  Two things the code reads from its platform are parameters of the model: the names of the
  local time zone, lower-cased (\<^verbatim>\<open>time.tzname\<close>, which \<^verbatim>\<open>strptime\<close> accepts for \<^verbatim>\<open>%Z\<close> besides
  \<^verbatim>\<open>utc\<close> and \<^verbatim>\<open>gmt\<close>), and the shortest-round-trip text of a float (\<^verbatim>\<open>float.__repr__\<close>).
  Every theorem below holds for all of them.
\<close>

record env =
  tzname :: "string list"
  float_repr :: "pyfloat \<Rightarrow> string"

section \<open>Library functions: characters, int() and float()\<close>

text \<open>
  The functions of the Python library that \<^verbatim>\<open>validate_type\<close> calls are modelled after
  CPython 3.11. A character is a code point below 256; the decimal digits among them are the
  ASCII ones. \<open>is_space\<close> is the white space that \<^verbatim>\<open>int()\<close> and \<^verbatim>\<open>float()\<close> strip, \<open>is_space_re\<close>
  the class \<^verbatim>\<open>\s\<close> of the \<^verbatim>\<open>re\<close> module.
\<close>

definition is_digit :: "char \<Rightarrow> bool" where
  "is_digit c = (c \<in> set ''0123456789'')"

definition digit_value :: "char \<Rightarrow> nat" where
  "digit_value c = of_char c - 48"

definition nat_of_digits :: "string \<Rightarrow> nat" where
  "nat_of_digits ds = foldl (\<lambda>n c. 10 * n + digit_value c) 0 ds"

definition is_space :: "char \<Rightarrow> bool" where
  "is_space c = (c \<in> set [CHR 0x09, CHR 0x0A, CHR 0x0B, CHR 0x0C, CHR 0x0D, CHR 0x20,
                            CHR 0x85, CHR 0xA0])"

definition is_space_re :: "char \<Rightarrow> bool" where
  "is_space_re c = (is_space c \<or> c \<in> set [CHR 0x1C, CHR 0x1D, CHR 0x1E, CHR 0x1F])"

definition strip :: "string \<Rightarrow> string" where
  "strip s = rev (dropWhile is_space (rev (dropWhile is_space s)))"

definition upper_chars :: string where
  "upper_chars = ''ABCDEFGHIJKLMNOPQRSTUVWXYZ'' @
     [CHR 0xC0, CHR 0xC1, CHR 0xC2, CHR 0xC3, CHR 0xC4, CHR 0xC5, CHR 0xC6, CHR 0xC7, CHR 0xC8,
      CHR 0xC9, CHR 0xCA, CHR 0xCB, CHR 0xCC, CHR 0xCD, CHR 0xCE, CHR 0xCF, CHR 0xD0, CHR 0xD1,
      CHR 0xD2, CHR 0xD3, CHR 0xD4, CHR 0xD5, CHR 0xD6, CHR 0xD8, CHR 0xD9, CHR 0xDA, CHR 0xDB,
      CHR 0xDC, CHR 0xDD, CHR 0xDE]"

definition lower_chars :: string where
  "lower_chars = ''abcdefghijklmnopqrstuvwxyz'' @
     [CHR 0xE0, CHR 0xE1, CHR 0xE2, CHR 0xE3, CHR 0xE4, CHR 0xE5, CHR 0xE6, CHR 0xE7, CHR 0xE8,
      CHR 0xE9, CHR 0xEA, CHR 0xEB, CHR 0xEC, CHR 0xED, CHR 0xEE, CHR 0xEF, CHR 0xF0, CHR 0xF1,
      CHR 0xF2, CHR 0xF3, CHR 0xF4, CHR 0xF5, CHR 0xF6, CHR 0xF8, CHR 0xF9, CHR 0xFA, CHR 0xFB,
      CHR 0xFC, CHR 0xFD, CHR 0xFE]"

definition lower_char :: "char \<Rightarrow> char" where
  "lower_char c = (case map_of (zip upper_chars lower_chars) c of None \<Rightarrow> c | Some l \<Rightarrow> l)"

definition lower :: "string \<Rightarrow> string" where
  "lower s = map lower_char s"

text \<open>
  \<^verbatim>\<open>int(value)\<close>. A string is stripped of white space, may start with one sign, and is then a
  run of digits in which single underscores may separate digits; more than
  \<^verbatim>\<open>sys.get_int_max_str_digits()\<close> digits (4300 by default) are refused. A finite float is
  truncated towards zero, NaN raises \<^verbatim>\<open>ValueError\<close> and an infinity \<^verbatim>\<open>OverflowError\<close>; \<^verbatim>\<open>None\<close>,
  lists and dictionaries raise \<^verbatim>\<open>TypeError\<close>.
\<close>

fun digits_underscores_ok :: "string \<Rightarrow> bool" where
  "digits_underscores_ok [] = False"
| "digits_underscores_ok [c] = is_digit c"
| "digits_underscores_ok (c # d # cs) =
     (is_digit c \<and>
      (if d = CHR ''_'' then digits_underscores_ok cs else digits_underscores_ok (d # cs)))"

definition split_sign :: "string \<Rightarrow> bool \<times> string" where
  "split_sign s =
     (case s of
        c # r \<Rightarrow> if c = CHR ''-'' then (True, r) else if c = CHR ''+'' then (False, r)
                 else (False, s)
      | [] \<Rightarrow> (False, s))"

definition int_max_str_digits :: nat where
  "int_max_str_digits = 4300"

definition int_of_string :: "string \<Rightarrow> exn + int" where
  "int_of_string s =
     (let (neg, body) = split_sign (strip s)
      in if \<not> digits_underscores_ok body then Inl ValueError
         else let ds = filter is_digit body
              in if int_max_str_digits < length ds then Inl ValueError
                 else Inr (if neg then - int (nat_of_digits ds) else int (nat_of_digits ds)))"

definition truncate_rat :: "rat \<Rightarrow> int" where
  "truncate_rat r = (if 0 \<le> r then \<lfloor>r\<rfloor> else \<lceil>r\<rceil>)"

fun py_int :: "pyval \<Rightarrow> exn + int" where
  "py_int PNone = Inl TypeError"
| "py_int (PBool b) = Inr (if b then 1 else 0)"
| "py_int (PInt n) = Inr n"
| "py_int (PFloat (Finite r)) = Inr (truncate_rat r)"
| "py_int (PFloat NaN) = Inl ValueError"
| "py_int (PFloat PosInf) = Inl OverflowError"
| "py_int (PFloat NegInf) = Inl OverflowError"
| "py_int (PStr s) = int_of_string s"
| "py_int (PList xs) = Inl TypeError"
| "py_int (PDict kvs) = Inl TypeError"

text \<open>
  \<^verbatim>\<open>float(value)\<close>. Only whether the conversion raises matters to the caller; the value is the
  rational denoted, replaced by an infinity from \<open>2^1024 - 2^970\<close> on, where rounding to the
  nearest double overflows. An integer that large raises \<^verbatim>\<open>OverflowError\<close>.
\<close>

definition float_max_bound :: rat where
  "float_max_bound = 2 ^ 1024 - 2 ^ 970"

definition round_float :: "rat \<Rightarrow> pyfloat" where
  "round_float r =
     (if float_max_bound \<le> r then PosInf
      else if r \<le> - float_max_bound then NegInf
      else Finite r)"

fun remove_underscores :: "char \<Rightarrow> string \<Rightarrow> string option" where
  "remove_underscores prev [] = (if prev = CHR ''_'' then None else Some [])"
| "remove_underscores prev (c # cs) =
     (if c = CHR ''_''
      then (if is_digit prev then remove_underscores c cs else None)
      else if prev = CHR ''_'' \<and> \<not> is_digit c then None
      else map_option ((#) c) (remove_underscores c cs))"

definition parse_exponent :: "string \<Rightarrow> int option" where
  "parse_exponent s =
     (case s of
        [] \<Rightarrow> Some 0
      | c # r \<Rightarrow>
          if c = CHR ''e'' \<or> c = CHR ''E''
          then (let (neg, ds) = split_sign r
                in if ds \<noteq> [] \<and> list_all is_digit ds
                   then Some (if neg then - int (nat_of_digits ds) else int (nat_of_digits ds))
                   else None)
          else None)"

definition pow10 :: "int \<Rightarrow> rat" where
  "pow10 k = (if 0 \<le> k then 10 ^ nat k else 1 / 10 ^ nat (- k))"

definition parse_decimal :: "string \<Rightarrow> rat option" where
  "parse_decimal s =
     (let ip = takeWhile is_digit s; r1 = dropWhile is_digit s;
          (fp, r2) = (case r1 of
                        c # r \<Rightarrow> if c = CHR ''.''
                                  then (takeWhile is_digit r, dropWhile is_digit r)
                                  else ([], r1)
                      | [] \<Rightarrow> ([], r1))
      in if ip = [] \<and> fp = [] then None
         else (case parse_exponent r2 of
                 None \<Rightarrow> None
               | Some ex \<Rightarrow>
                   Some (of_nat (nat_of_digits (ip @ fp)) * pow10 (ex - int (length fp)))))"

definition float_of_string :: "string \<Rightarrow> exn + pyfloat" where
  "float_of_string s =
     (case remove_underscores (CHR 0x00) (strip s) of
        None \<Rightarrow> Inl ValueError
      | Some t \<Rightarrow>
          (let (neg, body) = split_sign t
           in if lower body = ''inf'' \<or> lower body = ''infinity''
              then Inr (if neg then NegInf else PosInf)
              else if lower body = ''nan'' then Inr NaN
              else (case parse_decimal body of
                      None \<Rightarrow> Inl ValueError
                    | Some r \<Rightarrow> Inr (round_float (if neg then - r else r)))))"

fun py_float :: "pyval \<Rightarrow> exn + pyfloat" where
  "py_float PNone = Inl TypeError"
| "py_float (PBool b) = Inr (Finite (if b then 1 else 0))"
| "py_float (PInt n) =
     (if float_max_bound \<le> of_int n \<or> of_int n \<le> - float_max_bound then Inl OverflowError
      else Inr (Finite (of_int n)))"
| "py_float (PFloat f) = Inr f"
| "py_float (PStr s) = float_of_string s"
| "py_float (PList xs) = Inl TypeError"
| "py_float (PDict kvs) = Inl TypeError"

section \<open>Library functions: str() and repr()\<close>

text \<open>
  \<^verbatim>\<open>str(value)\<close> is the string itself for a string and \<^verbatim>\<open>repr(value)\<close> otherwise. An integer of
  more than 4300 digits makes both raise \<^verbatim>\<open>ValueError\<close>, also inside a list or a dictionary.
\<close>

definition hex_digit :: "nat \<Rightarrow> char" where
  "hex_digit n = ''0123456789abcdef'' ! n"

definition printable :: "char \<Rightarrow> bool" where
  "printable c =
     (let n = (of_char c :: nat) in (32 \<le> n \<and> n < 127) \<or> (161 \<le> n \<and> n \<noteq> 173))"

definition escape_char :: "char \<Rightarrow> char \<Rightarrow> string" where
  "escape_char quote c =
     (if c = quote \<or> c = CHR 0x5C then [CHR 0x5C, c]
      else if c = CHR 0x09 then [CHR 0x5C, CHR ''t'']
      else if c = CHR 0x0A then [CHR 0x5C, CHR ''n'']
      else if c = CHR 0x0D then [CHR 0x5C, CHR ''r'']
      else if \<not> printable c
      then [CHR 0x5C, CHR ''x'', hex_digit (of_char c div 16), hex_digit (of_char c mod 16)]
      else [c])"

definition repr_string :: "string \<Rightarrow> string" where
  "repr_string s =
     (let quote = (if CHR 0x27 \<in> set s \<and> CHR 0x22 \<notin> set s then CHR 0x22 else CHR 0x27)
      in quote # concat (map (escape_char quote) s) @ [quote])"

fun digits_of_nat :: "nat \<Rightarrow> string" where
  "digits_of_nat n =
     (if n < 10 then [hex_digit n] else digits_of_nat (n div 10) @ [hex_digit (n mod 10)])"

definition str_of_int :: "int \<Rightarrow> exn + string" where
  "str_of_int n =
     (let ds = digits_of_nat (nat \<bar>n\<bar>)
      in if int_max_str_digits < length ds then Inl ValueError
         else Inr (if n < 0 then CHR ''-'' # ds else ds))"

fun join :: "string \<Rightarrow> string list \<Rightarrow> string" where
  "join sep [] = []"
| "join sep [x] = x"
| "join sep (x # y # ys) = x @ sep @ join sep (y # ys)"

fun sequence :: "(exn + 'a) list \<Rightarrow> exn + 'a list" where
  "sequence [] = Inr []"
| "sequence (x # xs) =
     (case x of
        Inl err \<Rightarrow> Inl err
      | Inr r \<Rightarrow> (case sequence xs of Inl err \<Rightarrow> Inl err | Inr rs \<Rightarrow> Inr (r # rs)))"

definition item_repr :: "(exn + string) \<times> (exn + string) \<Rightarrow> exn + string" where
  "item_repr p =
     (case fst p of
        Inl err \<Rightarrow> Inl err
      | Inr rk \<Rightarrow> (case snd p of Inl err \<Rightarrow> Inl err | Inr rv \<Rightarrow> Inr (rk @ '': '' @ rv)))"

definition bracket :: "string \<Rightarrow> string \<Rightarrow> exn + string list \<Rightarrow> exn + string" where
  "bracket l r x = (case x of Inl err \<Rightarrow> Inl err | Inr rs \<Rightarrow> Inr (l @ join '', '' rs @ r))"

primrec py_repr :: "env \<Rightarrow> pyval \<Rightarrow> exn + string" where
  "py_repr e PNone = Inr ''None''"
| "py_repr e (PBool b) = Inr (if b then ''True'' else ''False'')"
| "py_repr e (PInt n) = str_of_int n"
| "py_repr e (PFloat f) = Inr (float_repr e f)"
| "py_repr e (PStr s) = Inr (repr_string s)"
| "py_repr e (PList xs) = bracket ''['' '']'' (sequence (map (py_repr e) xs))"
| "py_repr e (PDict kvs) =
     bracket ''{'' ''}''
       (sequence (map item_repr (map (map_prod (py_repr e) (py_repr e)) kvs)))"

definition py_str :: "env \<Rightarrow> pyval \<Rightarrow> exn + string" where
  "py_str e v = (case v of PStr s \<Rightarrow> Inr s | _ \<Rightarrow> py_repr e v)"

section \<open>Library functions: datetime\<close>

text \<open>
  The constructor of \<^verbatim>\<open>datetime\<close> checks the ranges of its fields and raises \<^verbatim>\<open>ValueError\<close>
  outside them.
\<close>

record datetime =
  year :: nat
  month :: nat
  day :: nat
  hour :: nat
  minute :: nat
  second :: nat
  microsecond :: nat
  utcoffset :: "int option"

definition is_leap :: "nat \<Rightarrow> bool" where
  "is_leap y = (y mod 4 = 0 \<and> (y mod 100 \<noteq> 0 \<or> y mod 400 = 0))"

definition days_in_month :: "nat \<Rightarrow> nat \<Rightarrow> nat" where
  "days_in_month y m =
     (if m = 2 then (if is_leap y then 29 else 28)
      else if m \<in> {4, 6, 9, 11} then 30 else 31)"

definition new_datetime ::
  "nat \<Rightarrow> nat \<Rightarrow> nat \<Rightarrow> nat \<Rightarrow> nat \<Rightarrow> nat \<Rightarrow> nat \<Rightarrow> int option \<Rightarrow> exn + datetime" where
  "new_datetime y mo d h mi s us tz =
     (if 1 \<le> y \<and> y \<le> 9999 \<and> 1 \<le> mo \<and> mo \<le> 12 \<and> 1 \<le> d \<and> d \<le> days_in_month y mo
         \<and> h \<le> 23 \<and> mi \<le> 59 \<and> s \<le> 59 \<and> us \<le> 999999
      then Inr \<lparr>year = y, month = mo, day = d, hour = h, minute = mi, second = s,
                microsecond = us, utcoffset = tz\<rparr>
      else Inl ValueError)"

text \<open>
  \<^verbatim>\<open>datetime.strptime(data_string, format)\<close> compiles the format into a regular expression,
  matches it at the start of the string and refuses text left over after the match. A
  directive is one group of alternatives, tried from left to right as the \<^verbatim>\<open>re\<close> module does;
  white space in the format stands for \<^verbatim>\<open>\s+\<close>. \<open>alts\<close> lists, for one directive, the ways it can
  match a prefix of the input in that order, and \<open>match_items\<close> the matches of a whole format,
  the first of which is the one \<^verbatim>\<open>re.match\<close> returns. Each alternative is written as the list
  of its character classes, as in \<^verbatim>\<open>_strptime.py\<close>: for instance \<^verbatim>\<open>%m\<close> is
  \<^verbatim>\<open>1[0-2]|0[1-9]|[1-9]\<close>.
\<close>

datatype directive = FLit char | FSpace | FY | Fm | Fd | FH | FM | FS | Ff | FZ

definition directive_of :: "char \<Rightarrow> directive option" where
  "directive_of c =
     map_of [(CHR ''Y'', FY), (CHR ''m'', Fm), (CHR ''d'', Fd), (CHR ''H'', FH), (CHR ''M'', FM),
             (CHR ''S'', FS), (CHR ''f'', Ff), (CHR ''Z'', FZ), (CHR ''%'', FLit (CHR ''%''))] c"

definition cons_ok :: "'a \<Rightarrow> exn + 'a list \<Rightarrow> exn + 'a list" where
  "cons_ok x r = (case r of Inl err \<Rightarrow> Inl err | Inr xs \<Rightarrow> Inr (x # xs))"

fun parse_format :: "bool \<Rightarrow> string \<Rightarrow> exn + directive list" where
  "parse_format sp [] = Inr []"
| "parse_format sp (c # cs) =
     (if is_space_re c
      then (if sp then parse_format True cs else cons_ok FSpace (parse_format True cs))
      else if c = CHR ''%''
      then (case cs of
              [] \<Rightarrow> Inl ValueError
            | d # ds \<Rightarrow>
                (case directive_of d of
                   None \<Rightarrow> Inl ValueError
                 | Some x \<Rightarrow> cons_ok x (parse_format False ds)))
      else cons_ok (FLit c) (parse_format False cs))"

definition alt_match :: "string list \<Rightarrow> string \<Rightarrow> (string \<times> string) list" where
  "alt_match classes s =
     (let n = length classes
      in if n \<le> length s \<and> list_all2 (\<lambda>cl c. c \<in> set cl) classes (take n s)
         then [(take n s, drop n s)] else [])"

definition D :: string where "D = ''0123456789''"
definition D1 :: string where "D1 = ''123456789''"

definition greedy_prefixes :: "nat \<Rightarrow> nat \<Rightarrow> string \<Rightarrow> (string \<times> string) list" where
  "greedy_prefixes lo hi s = map (\<lambda>n. (take n s, drop n s)) (rev [lo..<Suc hi])"

definition tz_alternatives :: "env \<Rightarrow> string list" where
  "tz_alternatives e = ''utc'' # ''gmt'' # tzname e"

fun alts :: "env \<Rightarrow> directive \<Rightarrow> string \<Rightarrow> (string \<times> string) list" where
  "alts e (FLit c) s =
     (case s of [] \<Rightarrow> [] | x # r \<Rightarrow> if lower_char x = lower_char c then [([x], r)] else [])"
| "alts e FSpace s = greedy_prefixes 1 (length (takeWhile is_space_re s)) s"
| "alts e FY s = alt_match [D, D, D, D] s"
| "alts e Fm s = alt_match [''1'', ''012''] s @ alt_match [''0'', D1] s @ alt_match [D1] s"
| "alts e Fd s =
     alt_match [''3'', ''01''] s @ alt_match [''12'', D] s @ alt_match [''0'', D1] s
       @ alt_match [D1] s @ alt_match ['' '', D1] s"
| "alts e FH s = alt_match [''2'', ''0123''] s @ alt_match [''01'', D] s @ alt_match [D] s"
| "alts e FM s = alt_match [''012345'', D] s @ alt_match [D] s"
| "alts e FS s = alt_match [''6'', ''01''] s @ alt_match [''012345'', D] s @ alt_match [D] s"
| "alts e Ff s = greedy_prefixes 1 (min 6 (length (takeWhile is_digit s))) s"
| "alts e FZ s =
     filter (\<lambda>(m, r). lower m \<in> set (tz_alternatives e)) (greedy_prefixes 0 (length s) s)"

fun match_items ::
  "env \<Rightarrow> directive list \<Rightarrow> string \<Rightarrow> ((directive \<times> string) list \<times> string) list" where
  "match_items e [] s = [([], s)]"
| "match_items e (d # ds) s =
     concat (map (\<lambda>(m, r). map (\<lambda>(found, rest). ((d, m) # found, rest)) (match_items e ds r))
                 (alts e d s))"

definition found_int :: "(directive \<times> string) list \<Rightarrow> directive \<Rightarrow> nat \<Rightarrow> nat" where
  "found_int found d dflt =
     (case map_of found d of None \<Rightarrow> dflt | Some m \<Rightarrow> nat_of_digits (filter is_digit m))"

definition found_fraction :: "(directive \<times> string) list \<Rightarrow> nat" where
  "found_fraction found =
     (case map_of found Ff of
        None \<Rightarrow> 0
      | Some m \<Rightarrow> nat_of_digits (m @ replicate (6 - length m) (CHR ''0'')))"

definition strptime :: "env \<Rightarrow> pyval \<Rightarrow> string \<Rightarrow> exn + datetime" where
  "strptime e data_string format =
     (case data_string of
        PStr s \<Rightarrow>
          (case parse_format False format of
             Inl err \<Rightarrow> Inl err
           | Inr items \<Rightarrow>
               (case match_items e items s of
                  [] \<Rightarrow> Inl ValueError
                | (found, rest) # others \<Rightarrow>
                    if rest \<noteq> [] then Inl ValueError
                    else new_datetime (found_int found FY 1900) (found_int found Fm 1)
                           (found_int found Fd 1) (found_int found FH 0) (found_int found FM 0)
                           (found_int found FS 0) (found_fraction found) None))
      | _ \<Rightarrow> Inl TypeError)"

text \<open>
  The pattern of the \<^verbatim>\<open>TIMESTAMP\<close> branch,
  \<^verbatim>\<open>^\d{4}-\d{2}-\d{2}T\d{2}:\d{2}:\d{2}(?:\.\d+)?(?:Z|[+-]\d{2}:\d{2})?$\<close>:
  \<open>iso_rests\<close> lists what can remain of the string after the two optional groups, and the
  pattern matches when one of these is at the end of the string, which \<^verbatim>\<open>$\<close> takes to be the
  end itself or a final newline. \<^verbatim>\<open>re.match\<close> raises \<^verbatim>\<open>TypeError\<close> on a value that is not a
  string.
\<close>

definition frac_opt :: "string \<Rightarrow> string list" where
  "frac_opt r =
     (case r of
        [] \<Rightarrow> []
      | c # ds \<Rightarrow>
          if c = CHR ''.''
          then map snd (greedy_prefixes 1 (length (takeWhile is_digit ds)) ds)
          else []) @ [r]"

definition tz_opt :: "string \<Rightarrow> string list" where
  "tz_opt r =
     map snd (alt_match [''Z''] r) @ map snd (alt_match [''+-'', D, D, '':'', D, D] r) @ [r]"

definition iso_rests :: "string \<Rightarrow> string list" where
  "iso_rests s =
     concat (map (\<lambda>(h, r1). concat (map tz_opt (frac_opt r1)))
       (alt_match [D, D, D, D, ''-'', D, D, ''-'', D, D, ''T'', D, D, '':'', D, D, '':'', D, D] s))"

definition at_end :: "string \<Rightarrow> bool" where
  "at_end r = (r = [] \<or> r = [CHR 0x0A])"

definition re_match_iso :: "pyval \<Rightarrow> exn + bool" where
  "re_match_iso v =
     (case v of PStr s \<Rightarrow> Inr (list_ex at_end (iso_rests s)) | _ \<Rightarrow> Inl TypeError)"

text \<open>
  \<^verbatim>\<open>datetime.fromisoformat\<close> is called only on strings that matched the pattern, with every
  \<^verbatim>\<open>Z\<close> replaced by \<^verbatim>\<open>+00:00\<close>. The model covers their shape: a date \<^verbatim>\<open>YYYY-MM-DD\<close>, one
  separator, a time \<^verbatim>\<open>HH:MM:SS\<close>, a fraction of any length (from which six digits are kept) and
  an offset \<^verbatim>\<open>\<plusminus>HH:MM\<close> of less than 24 hours; anything after that is refused, a final newline
  included. Other shapes, which do not reach the function, are reported as \<^verbatim>\<open>ValueError\<close>.
\<close>

definition replace_Z :: "string \<Rightarrow> string" where
  "replace_Z s = concat (map (\<lambda>c. if c = CHR ''Z'' then ''+00:00'' else [c]) s)"

definition iso_fraction :: "string \<Rightarrow> (nat \<times> string) option" where
  "iso_fraction r =
     (case r of
        [] \<Rightarrow> Some (0, [])
      | c # ds \<Rightarrow>
          if c = CHR ''.'' \<or> c = CHR '',''
          then (let f = takeWhile is_digit ds
                in if f = [] then None
                   else Some (nat_of_digits (take 6 (f @ replicate 6 (CHR ''0''))),
                              dropWhile is_digit ds))
          else Some (0, r))"

definition iso_tz :: "string \<Rightarrow> int option option" where
  "iso_tz r =
     (if r = [] then Some None
      else if r = ''Z'' then Some (Some 0)
      else (case alt_match [''+-'', D, D, '':'', D, D] r of
              [] \<Rightarrow> None
            | (m, rest) # others \<Rightarrow>
                if rest \<noteq> [] then None
                else (let secs = int (nat_of_digits (take 2 (drop 1 m))) * 3600
                                 + int (nat_of_digits (take 2 (drop 4 m))) * 60
                      in if 86400 \<le> secs then None
                         else Some (Some (if hd m = CHR ''-'' then - secs else secs)))))"

definition fromisoformat :: "string \<Rightarrow> exn + datetime" where
  "fromisoformat s =
     (case alt_match [D, D, D, D, ''-'', D, D, ''-'', D, D] s of
        [] \<Rightarrow> Inl ValueError
      | (dt, r) # others \<Rightarrow>
          (case alt_match [D, D, '':'', D, D, '':'', D, D] (drop 1 r) of
             [] \<Rightarrow> Inl ValueError
           | (tm, r1) # others \<Rightarrow>
               if r = [] then Inl ValueError
               else (case iso_fraction r1 of
                       None \<Rightarrow> Inl ValueError
                     | Some (us, r2) \<Rightarrow>
                         (case iso_tz r2 of
                            None \<Rightarrow> Inl ValueError
                          | Some tz \<Rightarrow>
                              new_datetime (nat_of_digits (take 4 dt))
                                (nat_of_digits (take 2 (drop 5 dt)))
                                (nat_of_digits (take 2 (drop 8 dt)))
                                (nat_of_digits (take 2 tm))
                                (nat_of_digits (take 2 (drop 3 tm)))
                                (nat_of_digits (take 2 (drop 6 tm))) us tz))))"

section \<open>validate\_type\<close>

text \<open>
  \<open>try_except_ValueError\<close> is \<^verbatim>\<open>try: body except ValueError: handler\<close>, and
  \<open>except_ValueError_TypeError\<close> the handler around the whole of \<^verbatim>\<open>validate_type\<close>, which turns
  these two exceptions into \<^verbatim>\<open>False\<close> and lets any other one through. \<open>then_True\<close> is a
  statement whose value is dropped, followed by \<^verbatim>\<open>return True\<close>.
\<close>

definition try_except_ValueError :: "exn + 'a \<Rightarrow> exn + 'a \<Rightarrow> exn + 'a" where
  "try_except_ValueError body handler = (case body of Inl ValueError \<Rightarrow> handler | _ \<Rightarrow> body)"

definition except_ValueError_TypeError :: "exn + bool \<Rightarrow> exn + bool" where
  "except_ValueError_TypeError body =
     (case body of Inl ValueError \<Rightarrow> Inr False | Inl TypeError \<Rightarrow> Inr False | _ \<Rightarrow> body)"

definition then_True :: "exn + 'a \<Rightarrow> exn + bool" where
  "then_True stmt = (case stmt of Inl err \<Rightarrow> Inl err | Inr x \<Rightarrow> Inr True)"

text \<open>
  The chain of \<^verbatim>\<open>if\<close>/\<^verbatim>\<open>elif\<close> on the type tag is the same in both files up to the last
  \<^verbatim>\<open>else\<close>; \<open>known_type_check\<close> is that common part and gives \<open>None\<close> when no branch applies.
  In \<^verbatim>\<open>schema_val.py\<close> the last branch is \<^verbatim>\<open>return False\<close>; in \<^verbatim>\<open>df_bq_ingest.py\<close> it is
  \<^verbatim>\<open>str(value)\<close> followed by \<^verbatim>\<open>return True\<close>.
\<close>

definition timestamp_check :: "env \<Rightarrow> pyval \<Rightarrow> exn + datetime" where
  "timestamp_check e val =
     try_except_ValueError
       (case re_match_iso val of
          Inl err \<Rightarrow> Inl err
        | Inr matched \<Rightarrow>
            if matched
            then (case val of PStr s \<Rightarrow> fromisoformat (replace_Z s) | _ \<Rightarrow> Inl TypeError)
            else strptime e val ''%Y-%m-%d %H:%M:%S.%f %Z'')
       (try_except_ValueError (strptime e val ''%Y-%m-%d %H:%M:%S %Z'')
          (try_except_ValueError (strptime e val ''%Y-%m-%d %H:%M:%S.%f'')
             (strptime e val ''%Y-%m-%d %H:%M:%S'')))"

definition known_type_check :: "env \<Rightarrow> pyval \<Rightarrow> string \<Rightarrow> (exn + bool) option" where
  "known_type_check e val ftype =
     (if ftype \<in> set [''STRING'', ''BYTES'', ''JSON'', ''GEOGRAPHY'', ''INTERVAL'']
      then Some (then_True (py_str e val))
      else if ftype \<in> set [''INT64'', ''INTEGER'', ''INT'', ''SMALLINT'', ''BIGINT'', ''TINYINT'',
                            ''BYTEINT'']
      then Some (then_True (py_int val))
      else if ftype \<in> set [''NUMERIC'', ''DECIMAL'', ''BIGNUMERIC'', ''BIGDECIMAL'', ''FLOAT64'']
      then Some (then_True (py_float val))
      else if ftype = ''BOOL''
      then Some (case py_str e val of
                   Inl err \<Rightarrow> Inl err
                 | Inr s \<Rightarrow>
                     if lower s \<notin> set [''true'', ''false'', ''1'', ''0''] then Inr False
                     else Inr True)
      else if ftype = ''DATE'' then Some (then_True (strptime e val ''%Y-%m-%d''))
      else if ftype = ''DATETIME'' then Some (then_True (strptime e val ''%Y-%m-%d %H:%M:%S''))
      else if ftype = ''TIME'' then Some (then_True (strptime e val ''%H:%M:%S''))
      else if ftype = ''TIMESTAMP'' then Some (then_True (timestamp_check e val))
      else None)"

definition validate_type :: "env \<Rightarrow> pyval \<Rightarrow> string \<Rightarrow> exn + bool" where
  "validate_type e val ftype =
     except_ValueError_TypeError
       (case known_type_check e val ftype of Some r \<Rightarrow> r | None \<Rightarrow> Inr False)"

definition SchemaValidation_validate_type :: "env \<Rightarrow> pyval \<Rightarrow> string \<Rightarrow> exn + bool" where
  "SchemaValidation_validate_type e val ftype =
     except_ValueError_TypeError
       (case known_type_check e val ftype of
          Some r \<Rightarrow> r
        | None \<Rightarrow> then_True (py_str e val))"

text \<open>
  The type tags that have a branch in \<^verbatim>\<open>validate_type\<close>, all of them and those of the
  integer class, and an environment for evaluating examples: a machine whose local zone adds
  no name, with the text of floats left unspecified.
\<close>

definition recognized_types :: "string list" where
  "recognized_types =
     [''STRING'', ''BYTES'', ''JSON'', ''GEOGRAPHY'', ''INTERVAL'',
      ''INT64'', ''INTEGER'', ''INT'', ''SMALLINT'', ''BIGINT'', ''TINYINT'', ''BYTEINT'',
      ''NUMERIC'', ''DECIMAL'', ''BIGNUMERIC'', ''BIGDECIMAL'', ''FLOAT64'',
      ''BOOL'', ''DATE'', ''DATETIME'', ''TIME'', ''TIMESTAMP'']"

definition integer_types :: "string list" where
  "integer_types =
     [''INT64'', ''INTEGER'', ''INT'', ''SMALLINT'', ''BIGINT'', ''TINYINT'', ''BYTEINT'']"

definition example_env :: env where
  "example_env = \<lparr>tzname = [], float_repr = undefined\<rparr>"

section \<open>validate\_data\<close>

text \<open>
  \<^verbatim>\<open>validate_data\<close> of \<^verbatim>\<open>schema_val.py\<close> and \<^verbatim>\<open>SchemaValidation.validate_data\<close> of
  \<^verbatim>\<open>df_bq_ingest.py\<close> have the same body and differ in the \<^verbatim>\<open>validate_type\<close> they call,
  which is the argument \<open>vt\<close> here. The inner loop runs over \<^verbatim>\<open>zip(row, schema)\<close>. The message
  of the type-mismatch exception is the f-string
  \<^verbatim>\<open>f"Field '{field_name}' with value '{value}' cannot be converted to type '{field_type}'."\<close>:
  it is built before the exception is raised and evaluates \<^verbatim>\<open>str(value)\<close>, so an exception of
  \<^verbatim>\<open>str(value)\<close> leaves \<^verbatim>\<open>validate_data\<close> in place of the type-mismatch exception. The other
  two messages hold no value, and the name and the type of a field are strings.
\<close>

fun validate_fields ::
  "env \<Rightarrow> (pyval \<Rightarrow> string \<Rightarrow> exn + bool) \<Rightarrow> (pyval \<times> field) list \<Rightarrow> exn + unit" where
  "validate_fields e vt [] = Inr ()"
| "validate_fields e vt ((val, fld) # rest) =
     (if get_mode fld = ''REQUIRED'' \<and> val = PNone
      then Inl (SchemaValidationException (MissingRequiredField (field_name fld)))
      else if val \<noteq> PNone
      then (case vt val (field_type fld) of
              Inl err \<Rightarrow> Inl err
            | Inr ok \<Rightarrow>
                if \<not> ok
                then (case py_str e val of
                        Inl err \<Rightarrow> Inl err
                      | Inr text \<Rightarrow>
                          Inl (SchemaValidationException
                            (TypeMismatch (field_name fld) val (field_type fld))))
                else validate_fields e vt rest)
      else validate_fields e vt rest)"

fun validate_data_with ::
  "env \<Rightarrow> (pyval \<Rightarrow> string \<Rightarrow> exn + bool) \<Rightarrow> pyval list list \<Rightarrow> field list \<Rightarrow>
     exn + unit" where
  "validate_data_with e vt [] schema = Inr ()"
| "validate_data_with e vt (row # rows) schema =
     (if length row \<noteq> length schema
      then Inl (SchemaValidationException ArityMismatch)
      else (case validate_fields e vt (zip row schema) of
              Inl err \<Rightarrow> Inl err
            | Inr u \<Rightarrow> validate_data_with e vt rows schema))"

definition validate_data :: "env \<Rightarrow> pyval list list \<Rightarrow> field list \<Rightarrow> exn + unit" where
  "validate_data e data schema = validate_data_with e (validate_type e) data schema"

definition SchemaValidation_validate_data ::
  "env \<Rightarrow> pyval list list \<Rightarrow> field list \<Rightarrow> exn + unit" where
  "SchemaValidation_validate_data e data schema =
     validate_data_with e (SchemaValidation_validate_type e) data schema"

section \<open>parse\_data\<close>

text \<open>
  \<^verbatim>\<open>ast.literal_eval\<close> parses its argument as a Python expression and converts the syntax tree.
  The model parses a fragment of the expression grammar: the names \<^verbatim>\<open>None\<close>, \<^verbatim>\<open>True\<close>,
  \<^verbatim>\<open>False\<close> and other identifiers, decimal integers and floats without underscores, quoted
  strings without backslash or line break (adjacent ones are joined), list and dictionary
  displays, the prefix signs, and blanks between tokens. Everything else is reported as
  \<^verbatim>\<open>SyntaxError\<close>, so outside the fragment the model says nothing about the interpreter
  (which accepts tuples, sets, bytes, escapes, binary operators and more). Inside the
  fragment the conversion follows \<^verbatim>\<open>ast._convert\<close>: an identifier raises \<^verbatim>\<open>ValueError\<close>, a sign
  is accepted before a number only, and a dictionary display is built by inserting the items
  in order, which raises \<^verbatim>\<open>TypeError\<close> for a key that is a list or a dictionary. A value
  that is not a string raises \<^verbatim>\<open>ValueError\<close>.
\<close>

datatype token = TNum pyval | TStr string | TName string | TPunct char

text \<open>
  The tokens are read from left to right; \<open>tokens_from n\<close> skips the \<open>n\<close> characters that are
  left of the token just read. An integer literal has no leading zero unless it is zero, and
  at most 4300 digits.
\<close>

definition lex_number :: "string \<Rightarrow> (pyval \<times> nat) option" where
  "lex_number s =
     (let ip = takeWhile is_digit s; r1 = dropWhile is_digit s;
          has_dot = (r1 \<noteq> [] \<and> hd r1 = CHR ''.'');
          fp = (if has_dot then takeWhile is_digit (tl r1) else []);
          r2 = (if has_dot then dropWhile is_digit (tl r1) else r1);
          (neg, r3) = split_sign (drop 1 r2);
          ex = takeWhile is_digit r3;
          has_exp = (r2 \<noteq> [] \<and> hd r2 \<in> set ''eE'' \<and> ex \<noteq> []);
          rest = (if has_exp then dropWhile is_digit r3 else r2)
      in if ip = [] \<and> fp = [] then None
         else if \<not> has_dot \<and> \<not> has_exp
         then (if (hd ip = CHR ''0'' \<and> \<not> list_all (\<lambda>c. c = CHR ''0'') ip)
                  \<or> int_max_str_digits < length ip
               then None
               else Some (PInt (int (nat_of_digits ip)), length s - length rest))
         else Some (PFloat (round_float (of_nat (nat_of_digits (ip @ fp))
                      * pow10 ((if has_exp
                                then (if neg then - int (nat_of_digits ex)
                                      else int (nat_of_digits ex))
                                else 0) - int (length fp)))),
                    length s - length rest))"

definition is_name_start :: "char \<Rightarrow> bool" where
  "is_name_start c =
     (c \<in> set ''abcdefghijklmnopqrstuvwxyzABCDEFGHIJKLMNOPQRSTUVWXYZ_'')"

definition is_name_char :: "char \<Rightarrow> bool" where
  "is_name_char c = (is_name_start c \<or> is_digit c)"

definition lex_token :: "string \<Rightarrow> (token \<times> nat) option" where
  "lex_token s =
     (case s of
        [] \<Rightarrow> None
      | c # cs \<Rightarrow>
          if c \<in> set ''[]{},:+-'' then Some (TPunct c, 1)
          else if is_digit c \<or> c = CHR ''.''
          then map_option (\<lambda>(v, n). (TNum v, n)) (lex_number s)
          else if c = CHR 0x27 \<or> c = CHR 0x22
          then (let body = takeWhile (\<lambda>x. x \<noteq> c) cs
                in if length body = length cs
                      \<or> list_ex (\<lambda>x. x \<in> set [CHR 0x5C, CHR 0x0A, CHR 0x0D]) body
                   then None
                   else Some (TStr body, length body + 2))
          else if is_name_start c
          then Some (TName (takeWhile is_name_char s), length (takeWhile is_name_char s))
          else None)"

fun tokens_from :: "nat \<Rightarrow> string \<Rightarrow> token list option" where
  "tokens_from n [] = Some []"
| "tokens_from (Suc n) (c # cs) = tokens_from n cs"
| "tokens_from 0 (c # cs) =
     (if c \<in> set [CHR 0x20, CHR 0x09, CHR 0x0C] then tokens_from 0 cs
      else (case lex_token (c # cs) of
              None \<Rightarrow> None
            | Some (t, len) \<Rightarrow> map_option ((#) t) (tokens_from (len - 1) cs)))"

fun merge_strings :: "token list \<Rightarrow> token list" where
  "merge_strings (TStr a # TStr b # ts) = merge_strings (TStr (a @ b) # ts)"
| "merge_strings (t # ts) = t # merge_strings ts"
| "merge_strings [] = []"

text \<open>
  The parser keeps a stack of the displays and signs that are open and either waits for a
  value or holds one. No more than 200 brackets may be open at once.
\<close>

datatype expr =
    Constant pyval
  | Name string
  | ListE "expr list"
  | DictE "(expr \<times> expr) list"
  | UnaryOp char expr

datatype frame =
    FList "expr list"
  | FDictK "(expr \<times> expr) list"
  | FDictV "(expr \<times> expr) list" expr
  | FUnary char

datatype pstate = WantValue | HaveValue expr

fun reduce :: "frame list \<Rightarrow> expr \<Rightarrow> frame list \<times> pstate" where
  "reduce (FUnary c # st) v = reduce st (UnaryOp c v)"
| "reduce st v = (st, HaveValue v)"

definition name_expr :: "string \<Rightarrow> expr" where
  "name_expr n =
     (if n = ''None'' then Constant PNone
      else if n = ''True'' then Constant (PBool True)
      else if n = ''False'' then Constant (PBool False)
      else Name n)"

definition brackets_open :: "frame list \<Rightarrow> nat" where
  "brackets_open st = length (filter (\<lambda>f. case f of FUnary c \<Rightarrow> False | _ \<Rightarrow> True) st)"

fun step :: "frame list \<times> pstate \<Rightarrow> token \<Rightarrow> (frame list \<times> pstate) option" where
  "step (st, WantValue) (TNum v) = Some (reduce st (Constant v))"
| "step (st, WantValue) (TStr s) = Some (reduce st (Constant (PStr s)))"
| "step (st, WantValue) (TName n) = Some (reduce st (name_expr n))"
| "step (st, WantValue) (TPunct c) =
     (if c = CHR ''['' \<or> c = CHR ''{''
      then (if 200 \<le> brackets_open st then None
            else Some ((if c = CHR ''['' then FList [] else FDictK []) # st, WantValue))
      else if c = CHR ''+'' \<or> c = CHR ''-'' then Some (FUnary c # st, WantValue)
      else if c = CHR '']''
      then (case st of FList es # st' \<Rightarrow> Some (reduce st' (ListE (rev es))) | _ \<Rightarrow> None)
      else if c = CHR ''}''
      then (case st of FDictK kvs # st' \<Rightarrow> Some (reduce st' (DictE (rev kvs))) | _ \<Rightarrow> None)
      else None)"
| "step (st, HaveValue v) (TPunct c) =
     (if c = CHR '',''
      then (case st of
              FList es # st' \<Rightarrow> Some (FList (v # es) # st', WantValue)
            | FDictV kvs k # st' \<Rightarrow> Some (FDictK ((k, v) # kvs) # st', WantValue)
            | _ \<Rightarrow> None)
      else if c = CHR '']''
      then (case st of FList es # st' \<Rightarrow> Some (reduce st' (ListE (rev (v # es)))) | _ \<Rightarrow> None)
      else if c = CHR ''}''
      then (case st of
              FDictV kvs k # st' \<Rightarrow> Some (reduce st' (DictE (rev ((k, v) # kvs))))
            | _ \<Rightarrow> None)
      else if c = CHR '':''
      then (case st of FDictK kvs # st' \<Rightarrow> Some (FDictV kvs v # st', WantValue) | _ \<Rightarrow> None)
      else None)"
| "step (st, HaveValue v) t = None"

fun run :: "frame list \<times> pstate \<Rightarrow> token list \<Rightarrow> (frame list \<times> pstate) option" where
  "run s [] = Some s"
| "run s (t # ts) = (case step s t of None \<Rightarrow> None | Some s' \<Rightarrow> run s' ts)"

definition py_parse :: "string \<Rightarrow> expr option" where
  "py_parse s =
     (if CHR 0x00 \<in> set s then None
      else (case tokens_from 0 s of
              None \<Rightarrow> None
            | Some ts \<Rightarrow>
                (case run ([], WantValue) (merge_strings ts) of
                   Some ([], HaveValue v) \<Rightarrow> Some v
                 | _ \<Rightarrow> None)))"

text \<open>
  Keys of a dictionary are compared as Python does, numbers by value
  (\<^verbatim>\<open>True == 1 == 1.0\<close>); an item whose key is present replaces the value and keeps the key.
  The items of a display are converted key first, then value, then inserted.
\<close>

definition hashable :: "pyval \<Rightarrow> bool" where
  "hashable v = (case v of PList xs \<Rightarrow> False | PDict kvs \<Rightarrow> False | _ \<Rightarrow> True)"

definition number_value :: "pyval \<Rightarrow> pyfloat option" where
  "number_value v =
     (case v of
        PBool b \<Rightarrow> Some (Finite (if b then 1 else 0))
      | PInt n \<Rightarrow> Some (Finite (of_int n))
      | PFloat f \<Rightarrow> Some f
      | _ \<Rightarrow> None)"

definition key_eq :: "pyval \<Rightarrow> pyval \<Rightarrow> bool" where
  "key_eq a b =
     (case (number_value a, number_value b) of
        (Some x, Some y) \<Rightarrow> x = y \<and> x \<noteq> NaN
      | (None, None) \<Rightarrow> a = b
      | _ \<Rightarrow> False)"

fun dict_set :: "(pyval \<times> pyval) list \<Rightarrow> pyval \<Rightarrow> pyval \<Rightarrow> (pyval \<times> pyval) list" where
  "dict_set [] k v = [(k, v)]"
| "dict_set ((k', v') # kvs) k v =
     (if key_eq k' k then (k', v) # kvs else (k', v') # dict_set kvs k v)"

fun build_dict ::
  "(pyval \<times> pyval) list \<Rightarrow> ((exn + pyval) \<times> (exn + pyval)) list \<Rightarrow> exn + pyval" where
  "build_dict d [] = Inr (PDict d)"
| "build_dict d ((rk, rv) # items) =
     (case rk of
        Inl err \<Rightarrow> Inl err
      | Inr k \<Rightarrow>
          (case rv of
             Inl err \<Rightarrow> Inl err
           | Inr v \<Rightarrow>
               if \<not> hashable k then Inl TypeError else build_dict (dict_set d k v) items))"

definition negate :: "pyfloat \<Rightarrow> pyfloat" where
  "negate f = (case f of Finite r \<Rightarrow> Finite (- r) | PosInf \<Rightarrow> NegInf | NegInf \<Rightarrow> PosInf
               | NaN \<Rightarrow> NaN)"

definition convert_signed_num :: "char \<Rightarrow> expr \<Rightarrow> exn + pyval" where
  "convert_signed_num op operand =
     (case operand of
        Constant (PInt n) \<Rightarrow> Inr (PInt (if op = CHR ''-'' then - n else n))
      | Constant (PFloat f) \<Rightarrow> Inr (PFloat (if op = CHR ''-'' then negate f else f))
      | _ \<Rightarrow> Inl ValueError)"

definition list_result :: "exn + pyval list \<Rightarrow> exn + pyval" where
  "list_result r = (case r of Inl err \<Rightarrow> Inl err | Inr vs \<Rightarrow> Inr (PList vs))"

primrec convert :: "expr \<Rightarrow> exn + pyval" where
  "convert (Constant v) = Inr v"
| "convert (Name n) = Inl ValueError"
| "convert (ListE es) = list_result (sequence (map convert es))"
| "convert (DictE kvs) = build_dict [] (map (map_prod convert convert) kvs)"
| "convert (UnaryOp op operand) = convert_signed_num op operand"

definition literal_eval :: "pyval \<Rightarrow> exn + pyval" where
  "literal_eval node_or_string =
     (case node_or_string of
        PStr s \<Rightarrow>
          (case py_parse (dropWhile (\<lambda>c. c = CHR 0x20 \<or> c = CHR 0x09) s) of
             None \<Rightarrow> Inl SyntaxError
           | Some ex \<Rightarrow> convert ex)
      | _ \<Rightarrow> Inl ValueError)"

text \<open>
  \<open>parse_item\<close> is the body of the inner loop of \<^verbatim>\<open>parse_data\<close>:
  \<^verbatim>\<open>try: parsed_item = ast.literal_eval(item)\<close>,
  \<^verbatim>\<open>except (ValueError, SyntaxError): parsed_item = item\<close>. Any other exception leaves
  \<^verbatim>\<open>parse_data\<close>.
\<close>

definition parse_item :: "pyval \<Rightarrow> exn + pyval" where
  "parse_item item =
     (case literal_eval item of
        Inl ValueError \<Rightarrow> Inr item
      | Inl SyntaxError \<Rightarrow> Inr item
      | r \<Rightarrow> r)"

definition parse_data :: "pyval list list \<Rightarrow> exn + pyval list list" where
  "parse_data data = sequence (map (\<lambda>row. sequence (map parse_item row)) data)"

section \<open>convert\_to\_dict\_format\<close>

text \<open>
  The dictionary comprehension \<^verbatim>\<open>{col_name: value for col_name, value in zip(column_names, row)}\<close>
  stores the pairs from left to right, a later pair replacing an earlier one with the same key.
\<close>

fun dict_of_pairs :: "('k \<times> 'v) list \<Rightarrow> ('k \<rightharpoonup> 'v) \<Rightarrow> ('k \<rightharpoonup> 'v)" where
  "dict_of_pairs [] d = d"
| "dict_of_pairs ((k, v) # kvs) d = dict_of_pairs kvs (d(k \<mapsto> v))"

definition dict_row :: "string list \<Rightarrow> pyval list \<Rightarrow> (string \<rightharpoonup> pyval)" where
  "dict_row column_names row = dict_of_pairs (zip column_names row) Map.empty"

definition convert_to_dict_format ::
  "pyval list list \<Rightarrow> string list \<Rightarrow> (string \<rightharpoonup> pyval) list" where
  "convert_to_dict_format data column_names = map (dict_row column_names) data"

text \<open>\<^verbatim>\<open>FormatToBqRow.process\<close> yields the same dictionaries, one per row of \<^verbatim>\<open>parsed_data\<close>.\<close>

definition FormatToBqRow_process ::
  "string list \<Rightarrow> pyval list list \<Rightarrow> (string \<rightharpoonup> pyval) list" where
  "FormatToBqRow_process column_names parsed_data = map (dict_row column_names) parsed_data"

section \<open>Properties of validate\_data\<close>

lemma validate_fields_append:
  "validate_fields e vt (xs @ ys) =
     (case validate_fields e vt xs of Inl err \<Rightarrow> Inl err | Inr u \<Rightarrow> validate_fields e vt ys)"
  by (induction e vt xs rule: validate_fields.induct) (auto split: sum.splits)

lemma validate_data_with_append:
  "validate_data_with e vt (xs @ ys) schema =
     (case validate_data_with e vt xs schema of
        Inl err \<Rightarrow> Inl err | Inr u \<Rightarrow> validate_data_with e vt ys schema)"
  by (induction e vt xs schema rule: validate_data_with.induct) (auto split: sum.splits)

lemma zip_split_at:
  assumes "length row = length schema" and "i < length row"
  shows "zip row schema =
           take i (zip row schema) @ (row ! i, schema ! i) # drop (Suc i) (zip row schema)"
proof -
  have "i < length (zip row schema)" using assms by simp
  then have "zip row schema =
      take i (zip row schema) @ (zip row schema ! i) # drop (Suc i) (zip row schema)"
    by (rule id_take_nth_drop)
  moreover have "zip row schema ! i = (row ! i, schema ! i)" using assms by simp
  ultimately show ?thesis by simp
qed

text \<open>
  C2. A row whose length differs from the schema's makes \<^verbatim>\<open>validate_data\<close> raise the
  row-length exception when the loop reaches it (the rows before it having passed), whatever
  the row holds and whatever rows follow. No field of the row is examined: the result is the
  same for every type predicate \<open>vt\<close>, also for one that would raise on any call.
\<close>

theorem arity_mismatch_immediate:
  assumes "length row \<noteq> length schema"
    and "validate_data_with e vt pre schema = Inr ()"
  shows "validate_data_with e vt (pre @ row # rest) schema =
           Inl (SchemaValidationException ArityMismatch)"
  using assms by (simp add: validate_data_with_append)

theorem arity_mismatch_immediate_witness:
  "length [PStr ''Carol'', PStr ''40''] \<noteq>
     length [\<lparr>field_name = ''name'', field_type = ''STRING'', field_mode = Some ''REQUIRED''\<rparr>,
             \<lparr>field_name = ''age'', field_type = ''INT64'', field_mode = Some ''REQUIRED''\<rparr>,
             \<lparr>field_name = ''salary'', field_type = ''FLOAT64'', field_mode = Some ''NULLABLE''\<rparr>]
   \<and> validate_data_with example_env (\<lambda>v t. Inl TypeError) ([] @ [PStr ''Carol'', PStr ''40''] # [])
        [\<lparr>field_name = ''name'', field_type = ''STRING'', field_mode = Some ''REQUIRED''\<rparr>,
         \<lparr>field_name = ''age'', field_type = ''INT64'', field_mode = Some ''REQUIRED''\<rparr>,
         \<lparr>field_name = ''salary'', field_type = ''FLOAT64'', field_mode = Some ''NULLABLE''\<rparr>]
      = Inl (SchemaValidationException ArityMismatch)"
  using arity_mismatch_immediate [of "[PStr ''Carol'', PStr ''40'']"
     "[\<lparr>field_name = ''name'', field_type = ''STRING'', field_mode = Some ''REQUIRED''\<rparr>,
       \<lparr>field_name = ''age'', field_type = ''INT64'', field_mode = Some ''REQUIRED''\<rparr>,
       \<lparr>field_name = ''salary'', field_type = ''FLOAT64'', field_mode = Some ''NULLABLE''\<rparr>]"
     example_env "\<lambda>v t. Inl TypeError" "[]" "[]"]
  by simp

text \<open>
  C3. Let position \<open>i\<close> of a row of the schema's length hold \<^verbatim>\<open>None\<close>. If the field's mode
  is \<^verbatim>\<open>REQUIRED\<close>, validation fails, and it fails with the missing-required-field exception
  of that field as soon as the fields before it pass (validation stops at the first failure);
  the declared type and the type predicate play no part. If the mode is anything else
  (\<^verbatim>\<open>NULLABLE\<close>, or omitted and so defaulted to it), the position contributes nothing: the result
  is the one obtained with the position left out, so no type check is applied to the null.
\<close>

theorem null_field_check:
  assumes "length row = length schema" and "i < length row" and "row ! i = PNone"
  shows "(get_mode (schema ! i) = ''REQUIRED'' \<longrightarrow>
            (\<exists>err. validate_data_with e vt (row # rest) schema = Inl err) \<and>
            (validate_fields e vt (take i (zip row schema)) = Inr () \<longrightarrow>
               validate_data_with e vt (row # rest) schema =
                 Inl (SchemaValidationException (MissingRequiredField (field_name (schema ! i))))))
       \<and> (get_mode (schema ! i) \<noteq> ''REQUIRED'' \<longrightarrow>
            validate_fields e vt (zip row schema) =
              validate_fields e vt (take i (zip row schema) @ drop (Suc i) (zip row schema)))"
proof -
  let ?pre = "take i (zip row schema)" and ?post = "drop (Suc i) (zip row schema)"
  have split: "zip row schema = ?pre @ (PNone, schema ! i) # ?post"
    using zip_split_at [OF assms(1,2)] assms(3) by simp
  have whole: "validate_fields e vt (zip row schema) =
      (case validate_fields e vt ?pre of Inl err \<Rightarrow> Inl err
       | Inr u \<Rightarrow> validate_fields e vt ((PNone, schema ! i) # ?post))"
    by (subst split) (simp only: validate_fields_append)
  show ?thesis
    using assms(1) by (auto simp: whole validate_fields_append split: sum.splits)
qed

theorem null_field_check_witness:
  "validate_data_with example_env (\<lambda>v t. Inr True) [[PNone, PStr ''28'', PNone]]
     [\<lparr>field_name = ''name'', field_type = ''STRING'', field_mode = Some ''REQUIRED''\<rparr>,
      \<lparr>field_name = ''age'', field_type = ''INT64'', field_mode = Some ''REQUIRED''\<rparr>,
      \<lparr>field_name = ''salary'', field_type = ''FLOAT64'', field_mode = None\<rparr>]
     = Inl (SchemaValidationException (MissingRequiredField ''name''))
   \<and> validate_fields example_env (\<lambda>v t. if v = PNone then Inl TypeError else Inr True)
       (zip [PStr ''Alice'', PStr ''28'', PNone]
         [\<lparr>field_name = ''name'', field_type = ''STRING'', field_mode = Some ''REQUIRED''\<rparr>,
          \<lparr>field_name = ''age'', field_type = ''INT64'', field_mode = Some ''REQUIRED''\<rparr>,
          \<lparr>field_name = ''salary'', field_type = ''FLOAT64'', field_mode = None\<rparr>])
     = validate_fields example_env (\<lambda>v t. if v = PNone then Inl TypeError else Inr True)
         [(PStr ''Alice'', \<lparr>field_name = ''name'', field_type = ''STRING'', field_mode = Some ''REQUIRED''\<rparr>),
          (PStr ''28'', \<lparr>field_name = ''age'', field_type = ''INT64'', field_mode = Some ''REQUIRED''\<rparr>)]"
  using null_field_check [of "[PNone, PStr ''28'', PNone]"
     "[\<lparr>field_name = ''name'', field_type = ''STRING'', field_mode = Some ''REQUIRED''\<rparr>,
       \<lparr>field_name = ''age'', field_type = ''INT64'', field_mode = Some ''REQUIRED''\<rparr>,
       \<lparr>field_name = ''salary'', field_type = ''FLOAT64'', field_mode = None\<rparr>]"
     0 example_env "\<lambda>v t. Inr True" "[]"]
    null_field_check [of "[PStr ''Alice'', PStr ''28'', PNone]"
     "[\<lparr>field_name = ''name'', field_type = ''STRING'', field_mode = Some ''REQUIRED''\<rparr>,
       \<lparr>field_name = ''age'', field_type = ''INT64'', field_mode = Some ''REQUIRED''\<rparr>,
       \<lparr>field_name = ''salary'', field_type = ''FLOAT64'', field_mode = None\<rparr>]"
     2 example_env "\<lambda>v t. if v = PNone then Inl TypeError else Inr True" "[]"]
  by (simp add: get_mode_def)

section \<open>Properties of convert\_to\_dict\_format\<close>

lemma dict_of_pairs_eq: "dict_of_pairs kvs d = d ++ map_of (rev kvs)"
proof (induction kvs d rule: dict_of_pairs.induct)
  case (1 d)
  then show ?case by simp
next
  case (2 k v kvs d)
  have "d(k \<mapsto> v) = d ++ [k \<mapsto> v]" by simp
  then show ?case
    using 2 by (simp only: dict_of_pairs.simps rev.simps map_of_append map_add_assoc
        map_of.simps fst_conv snd_conv)
qed

lemma map_of_rev_distinct: "distinct (map fst xs) \<Longrightarrow> map_of (rev xs) = map_of xs"
proof -
  assume d: "distinct (map fst xs)"
  have "map fst (rev xs) = rev (map fst xs)" by (rule rev_map [symmetric])
  then have "distinct (map fst (rev xs))" using d by (simp only: distinct_rev)
  then show ?thesis using d by (simp only: map_of_inject_set set_rev)
qed

lemma dict_row_upds: "dict_row ns row = Map.empty(ns [\<mapsto>] row)"
  by (simp add: dict_row_def dict_of_pairs_eq map_upds_def)

lemma zip_take_min:
  "zip (take (min (length xs) (length ys)) xs) (take (min (length xs) (length ys)) ys) = zip xs ys"
proof -
  have "zip (take (min (length xs) (length ys)) xs) (take (min (length xs) (length ys)) ys)
      = take (min (length xs) (length ys)) (zip xs ys)"
    by (simp add: take_zip)
  also have "\<dots> = zip xs ys" by simp
  finally show ?thesis .
qed

text \<open>
  C10. The dictionary of a row pairs names and values by position: with as many distinct
  names as values, the \<open>i\<close>-th name is mapped to the \<open>i\<close>-th value. With lists of different
  lengths the dictionary is the one of the two lists cut to the shorter length, its keys are
  the first names up to the length of the row, and nothing is raised (the transform has no
  failing branch). \<^verbatim>\<open>convert_to_dict_format\<close> returns one such dictionary per row, in order, and
  \<^verbatim>\<open>FormatToBqRow.process\<close> yields the same ones.
\<close>

theorem convert_to_dict_positional:
  "(length column_names = length row \<and> distinct column_names \<and> i < length row \<longrightarrow>
      dict_row column_names row (column_names ! i) = Some (row ! i))
   \<and> dict_row column_names row =
       dict_row (take (min (length column_names) (length row)) column_names)
                (take (min (length column_names) (length row)) row)
   \<and> dom (dict_row column_names row) = set (take (length row) column_names)
   \<and> length (convert_to_dict_format data column_names) = length data
   \<and> (j < length data \<longrightarrow>
         convert_to_dict_format data column_names ! j = dict_row column_names (data ! j))
   \<and> FormatToBqRow_process column_names data = convert_to_dict_format data column_names"
proof -
  have c1: "dict_row column_names row (column_names ! i) = Some (row ! i)"
    if len: "length column_names = length row" and dist: "distinct column_names"
      and i: "i < length row"
  proof -
    have "distinct (map fst (zip column_names row))"
      using len dist by simp
    then have "map_of (rev (zip column_names row)) = map_of (zip column_names row)"
      by (rule map_of_rev_distinct)
    then have "dict_row column_names row = map_of (zip column_names row)"
      by (simp add: dict_row_def dict_of_pairs_eq)
    then show ?thesis
      using len dist i by (simp only: map_of_zip_nth)
  qed
  have c2: "dict_row column_names row =
       dict_row (take (min (length column_names) (length row)) column_names)
                (take (min (length column_names) (length row)) row)"
    unfolding dict_row_def by (simp only: zip_take_min)
  have c3: "dom (dict_row column_names row) = set (take (length row) column_names)"
    by (simp add: dict_row_upds dom_map_upds)
  have c4: "length (convert_to_dict_format data column_names) = length data"
    by (simp add: convert_to_dict_format_def)
  have c5: "convert_to_dict_format data column_names ! j = dict_row column_names (data ! j)"
    if "j < length data"
    using that by (simp add: convert_to_dict_format_def)
  have c6: "FormatToBqRow_process column_names data = convert_to_dict_format data column_names"
    by (simp add: convert_to_dict_format_def FormatToBqRow_process_def)
  show ?thesis
    by (intro conjI impI c2 c3 c4 c6) (erule conjE, erule conjE, rule c1, assumption+, rule c5)
qed

theorem convert_to_dict_positional_witness:
  "dict_row [''name'', ''age''] [PStr ''Alice'', PInt 28] ''age'' = Some (PInt 28)
   \<and> dict_row [''name'', ''age''] [PStr ''Alice'', PInt 28, PNone] =
       dict_row [''name'', ''age''] [PStr ''Alice'', PInt 28]
   \<and> convert_to_dict_format [[PStr ''Alice'', PInt 28]] [''name'', ''age''] ! 0 =
       dict_row [''name'', ''age''] [PStr ''Alice'', PInt 28]"
  using convert_to_dict_positional [of "[''name'', ''age'']" "[PStr ''Alice'', PInt 28]" 1
          "[[PStr ''Alice'', PInt 28]]" 0]
    convert_to_dict_positional [of "[''name'', ''age'']" "[PStr ''Alice'', PInt 28, PNone]" 0
          "[]" 0]
  by simp
section \<open>Properties of validate\_type\<close>

lemma sequence_Inl:
  "sequence xs = Inl err \<Longrightarrow> Inl err \<in> set xs"
  by (induction xs) (auto split: sum.splits)

lemma py_repr_error: "py_repr e v = Inl err \<Longrightarrow> err = ValueError"
proof (induction v arbitrary: err)
  case (PInt n)
  then show ?case by (auto simp: str_of_int_def Let_def split: if_splits)
next
  case (PList xs)
  then have "sequence (map (py_repr e) xs) = Inl err"
    by (auto simp: bracket_def split: sum.splits)
  then have "Inl err \<in> set (map (py_repr e) xs)" by (rule sequence_Inl)
  then show ?case using PList.IH by auto
next
  case (PDict kvs)
  then have "sequence (map item_repr (map (map_prod (py_repr e) (py_repr e)) kvs)) = Inl err"
    by (auto simp: bracket_def split: sum.splits)
  then have "Inl err \<in> set (map item_repr (map (map_prod (py_repr e) (py_repr e)) kvs))"
    by (rule sequence_Inl)
  then obtain k v where kv: "(k, v) \<in> set kvs"
    and it: "item_repr (py_repr e k, py_repr e v) = Inl err"
    by auto
  then have "py_repr e k = Inl err \<or> py_repr e v = Inl err"
    by (auto simp: item_repr_def split: sum.splits)
  then show ?case using PDict.IH kv by fastforce
qed simp_all

lemma py_str_error: "py_str e v = Inl err \<Longrightarrow> err = ValueError"
  by (cases v) (auto simp: py_str_def simp del: py_repr.simps dest: py_repr_error)

lemma known_type_check_BOOL:
  "known_type_check e v ''BOOL'' =
     Some (case py_str e v of
             Inl err \<Rightarrow> Inl err
           | Inr s \<Rightarrow> if lower s \<notin> set [''true'', ''false'', ''1'', ''0''] then Inr False
                       else Inr True)"
  by (simp add: known_type_check_def)

text \<open>
  C6. A value is coercible to \<^verbatim>\<open>BOOL\<close> exactly when \<^verbatim>\<open>str(value)\<close> exists and its lower-case form is
  one of \<^verbatim>\<open>true\<close>, \<^verbatim>\<open>false\<close>, \<^verbatim>\<open>1\<close>, \<^verbatim>\<open>0\<close>, in both files; \<^verbatim>\<open>"TRUE"\<close>, \<^verbatim>\<open>"0"\<close> and
  \<^verbatim>\<open>"false"\<close> are coercible and \<^verbatim>\<open>"yes"\<close> is not.
\<close>

theorem bool_coercible:
  "validate_type e v ''BOOL'' =
     Inr (\<exists>s. py_str e v = Inr s \<and> lower s \<in> set [''true'', ''false'', ''1'', ''0''])
   \<and> SchemaValidation_validate_type e v ''BOOL'' = validate_type e v ''BOOL''
   \<and> validate_type e (PStr ''TRUE'') ''BOOL'' = Inr True
   \<and> validate_type e (PStr ''0'') ''BOOL'' = Inr True
   \<and> validate_type e (PStr ''false'') ''BOOL'' = Inr True
   \<and> validate_type e (PStr ''yes'') ''BOOL'' = Inr False"
proof -
  have gen: "validate_type e v ''BOOL'' =
     Inr (\<exists>s. py_str e v = Inr s \<and> lower s \<in> set [''true'', ''false'', ''1'', ''0''])" for v
  proof (cases "py_str e v")
    case (Inl err)
    then have "err = ValueError" by (rule py_str_error)
    then show ?thesis
      using Inl by (simp add: validate_type_def known_type_check_BOOL
          except_ValueError_TypeError_def)
  next
    case (Inr s)
    then show ?thesis
      by (simp add: validate_type_def known_type_check_BOOL except_ValueError_TypeError_def)
  qed
  have same: "SchemaValidation_validate_type e v ''BOOL'' = validate_type e v ''BOOL''"
    by (simp add: validate_type_def SchemaValidation_validate_type_def known_type_check_BOOL)
  have lows: "lower ''TRUE'' = ''true''" "lower ''0'' = ''0''" "lower ''false'' = ''false''"
    "lower ''yes'' = ''yes''"
    by (simp_all add: lower_def lower_char_def upper_chars_def lower_chars_def)
  have ex: "validate_type e (PStr ''TRUE'') ''BOOL'' = Inr True"
    "validate_type e (PStr ''0'') ''BOOL'' = Inr True"
    "validate_type e (PStr ''false'') ''BOOL'' = Inr True"
    "validate_type e (PStr ''yes'') ''BOOL'' = Inr False"
    by (simp_all add: gen py_str_def lows)
  show ?thesis using gen same ex by blast
qed

lemma known_type_check_None:
  "ftype \<notin> set recognized_types \<Longrightarrow> known_type_check e v ftype = None"
  by (simp add: known_type_check_def recognized_types_def)

lemma validate_type_unrecognized:
  "ftype \<notin> set recognized_types \<Longrightarrow> validate_type e v ftype = Inr False"
  by (simp add: validate_type_def known_type_check_None except_ValueError_TypeError_def)

lemma SchemaValidation_validate_type_unrecognized:
  assumes "ftype \<notin> set recognized_types"
  shows "SchemaValidation_validate_type e v ftype = Inr (\<exists>s. py_str e v = Inr s)"
proof (cases "py_str e v")
  case (Inl err)
  then have "err = ValueError" by (rule py_str_error)
  then show ?thesis
    using Inl assms
    by (simp add: SchemaValidation_validate_type_def known_type_check_None then_True_def
        except_ValueError_TypeError_def)
next
  case (Inr s)
  then show ?thesis
    using assms
    by (simp add: SchemaValidation_validate_type_def known_type_check_None then_True_def
        except_ValueError_TypeError_def)
qed

lemma validate_fields_at:
  assumes "length row = length schema" and "i < length row"
  shows "validate_fields e vt (zip row schema) =
           (case validate_fields e vt (take i (zip row schema)) of
              Inl err \<Rightarrow> Inl err
            | Inr u \<Rightarrow>
                validate_fields e vt ((row ! i, schema ! i) # drop (Suc i) (zip row schema)))"
  by (subst zip_split_at [OF assms]) (simp only: validate_fields_append)

text \<open>
  C1, as amended. For a type tag outside the recognized ones, \<^verbatim>\<open>validate_type\<close> of
  \<^verbatim>\<open>schema_val.py\<close> returns \<^verbatim>\<open>False\<close> for every value. A row of the schema's length that holds
  at a field with such a tag a value other than \<^verbatim>\<open>None\<close>, one that \<^verbatim>\<open>str\<close> renders for the
  message, fails validation, and fails with the type-mismatch exception of that field once the
  fields before it pass. \<^verbatim>\<open>SchemaValidation.validate_type\<close> of \<^verbatim>\<open>df_bq_ingest.py\<close> instead
  returns \<^verbatim>\<open>True\<close> for such a tag whenever \<^verbatim>\<open>str(value)\<close> succeeds, and the field then passes
  the check of \<^verbatim>\<open>SchemaValidation.validate_data\<close>.
\<close>

theorem unrecognized_type_tag:
  assumes "ftype \<notin> set recognized_types"
  shows "validate_type e v ftype = Inr False
     \<and> SchemaValidation_validate_type e v ftype = Inr (\<exists>s. py_str e v = Inr s)
     \<and> (length row = length schema \<and> i < length row \<and> row ! i = v \<and> v \<noteq> PNone
          \<and> field_type (schema ! i) = ftype \<and> py_str e v = Inr text \<longrightarrow>
        (\<exists>err. validate_data e (row # rest) schema = Inl err) \<and>
        (validate_fields e (validate_type e) (take i (zip row schema)) = Inr () \<longrightarrow>
           validate_data e (row # rest) schema =
             Inl (SchemaValidationException (TypeMismatch (field_name (schema ! i)) v ftype))))
     \<and> (v \<noteq> PNone \<and> field_type fld = ftype \<and> py_str e v = Inr text \<longrightarrow>
          validate_fields e (SchemaValidation_validate_type e) ((v, fld) # flds) =
            validate_fields e (SchemaValidation_validate_type e) flds)"
proof -
  have row_level: "(\<exists>err. validate_data e (row # rest) schema = Inl err) \<and>
        (validate_fields e (validate_type e) (take i (zip row schema)) = Inr () \<longrightarrow>
           validate_data e (row # rest) schema =
             Inl (SchemaValidationException (TypeMismatch (field_name (schema ! i)) v ftype)))"
    if len: "length row = length schema" and i: "i < length row" and v: "row ! i = v"
      and nn: "v \<noteq> PNone" and ft: "field_type (schema ! i) = ftype"
      and str: "py_str e v = Inr text"
  proof -
    have vt: "validate_type e v (field_type (schema ! i)) = Inr False"
      using assms ft by (simp add: validate_type_unrecognized)
    show ?thesis
      using len nn vt v ft str
      by (auto simp: validate_data_def validate_fields_at [OF len i] split: sum.splits)
  qed
  have other: "validate_fields e (SchemaValidation_validate_type e) ((v, fld) # flds) =
            validate_fields e (SchemaValidation_validate_type e) flds"
    if nn: "v \<noteq> PNone" and ft: "field_type fld = ftype" and str: "py_str e v = Inr text"
  proof -
    have "SchemaValidation_validate_type e v (field_type fld) = Inr True"
      using SchemaValidation_validate_type_unrecognized [OF assms, of e v] ft str by simp
    then show ?thesis using nn by simp
  qed
  show ?thesis
    using validate_type_unrecognized [OF assms] SchemaValidation_validate_type_unrecognized [OF assms]
      row_level other by blast
qed

theorem unrecognized_type_tag_witness:
  "''ARRAY'' \<notin> set recognized_types
   \<and> py_str example_env (PList [PStr ''a'']) = Inr ''['a']''
   \<and> validate_type example_env (PList [PStr ''a'']) ''ARRAY'' = Inr False
   \<and> validate_data example_env [[PStr ''Jack'', PList [PStr ''a'']]]
       [\<lparr>field_name = ''name'', field_type = ''STRING'', field_mode = Some ''REQUIRED''\<rparr>,
        \<lparr>field_name = ''tags'', field_type = ''ARRAY'', field_mode = Some ''NULLABLE''\<rparr>]
      = Inl (SchemaValidationException (TypeMismatch ''tags'' (PList [PStr ''a'']) ''ARRAY''))"
proof -
  have t: "''ARRAY'' \<notin> set recognized_types" by (simp add: recognized_types_def)
  have s: "py_str example_env (PList [PStr ''a'']) = Inr ''['a']''"
    by (simp add: py_str_def bracket_def repr_string_def escape_char_def printable_def Let_def)
  have pre: "validate_fields example_env (validate_type example_env)
      (take 1 (zip [PStr ''Jack'', PList [PStr ''a'']]
        [\<lparr>field_name = ''name'', field_type = ''STRING'', field_mode = Some ''REQUIRED''\<rparr>,
         \<lparr>field_name = ''tags'', field_type = ''ARRAY'', field_mode = Some ''NULLABLE''\<rparr>])) = Inr ()"
    by (simp add: validate_type_def known_type_check_def get_mode_def py_str_def then_True_def
        except_ValueError_TypeError_def)
  show ?thesis
    using t s pre unrecognized_type_tag [OF t, of example_env "PList [PStr ''a'']"
      "[PStr ''Jack'', PList [PStr ''a'']]"
      "[\<lparr>field_name = ''name'', field_type = ''STRING'', field_mode = Some ''REQUIRED''\<rparr>,
        \<lparr>field_name = ''tags'', field_type = ''ARRAY'', field_mode = Some ''NULLABLE''\<rparr>]" 1
      "''['a']''" "[]"
      "\<lparr>field_name = ''tags'', field_type = ''ARRAY'', field_mode = Some ''NULLABLE''\<rparr>" "[]"]
    by simp
qed

text \<open>
  The claim as stated fails in \<^verbatim>\<open>df_bq_ingest.py\<close>: a list at a field tagged \<^verbatim>\<open>ARRAY\<close> is
  accepted there, and the row passes.
\<close>

theorem unrecognized_type_tag_counterexample:
  "''ARRAY'' \<notin> set recognized_types
   \<and> SchemaValidation_validate_type example_env (PList [PStr ''a'']) ''ARRAY'' = Inr True
   \<and> SchemaValidation_validate_data example_env [[PStr ''Jack'', PList [PStr ''a'']]]
       [\<lparr>field_name = ''name'', field_type = ''STRING'', field_mode = Some ''REQUIRED''\<rparr>,
        \<lparr>field_name = ''tags'', field_type = ''ARRAY'', field_mode = Some ''NULLABLE''\<rparr>]
      = Inr ()"
  by (simp add: recognized_types_def SchemaValidation_validate_type_def
      SchemaValidation_validate_data_def known_type_check_def get_mode_def py_str_def
      then_True_def except_ValueError_TypeError_def bracket_def repr_string_def escape_char_def
      printable_def)

lemma is_digit_not_space: "is_digit c \<Longrightarrow> \<not> is_space c"
  by (auto simp: is_digit_def is_space_def)

lemma digits_strip:
  assumes "list_all is_digit s"
  shows "strip s = s"
proof -
  have a: "dropWhile is_space s = s"
    using assms by (cases s) (auto simp: is_digit_not_space)
  have "list_all is_digit (rev s)" using assms by (simp add: list_all_iff)
  then have b: "dropWhile is_space (rev s) = rev s"
    by (cases "rev s") (auto simp: is_digit_not_space)
  show ?thesis by (simp add: strip_def a b)
qed

lemma digits_split_sign:
  assumes "list_all is_digit s"
  shows "split_sign s = (False, s)"
  using assms by (cases s) (auto simp: split_sign_def is_digit_def)

lemma digits_underscores_ok_digits:
  "s \<noteq> [] \<Longrightarrow> list_all is_digit s \<Longrightarrow> digits_underscores_ok s"
  by (induction s rule: digits_underscores_ok.induct) (auto simp: is_digit_def)

lemma int_of_string_digits:
  assumes "s \<noteq> []" and "list_all is_digit s" and "length s \<le> int_max_str_digits"
  shows "int_of_string s = Inr (int (nat_of_digits s))"
proof -
  have "filter is_digit s = s" using assms(2) by (simp add: list_all_iff)
  then show ?thesis
    using assms
    by (simp add: int_of_string_def digits_strip digits_split_sign digits_underscores_ok_digits)
qed

lemma known_type_check_integer:
  "ftype \<in> set integer_types \<Longrightarrow> known_type_check e v ftype = Some (then_True (py_int v))"
  by (auto simp: known_type_check_def integer_types_def)

lemma validate_type_integer:
  "ftype \<in> set integer_types \<Longrightarrow>
   validate_type e v ftype = except_ValueError_TypeError (then_True (py_int v))"
  by (simp add: validate_type_def known_type_check_integer)

text \<open>
  C5, as amended. For a type of the integer class: an integer or a boolean is coercible,
  every finite float is (integral or not: \<^verbatim>\<open>int\<close> truncates it), a string is exactly when
  \<^verbatim>\<open>int\<close> parses it, which holds for every non-empty string of at most 4300 decimal digits;
  NaN, \<^verbatim>\<open>None\<close>, lists and dictionaries are not. Both files agree.
\<close>

theorem integer_coercible:
  assumes "ftype \<in> set integer_types"
  shows "validate_type e (PInt n) ftype = Inr True
     \<and> validate_type e (PBool b) ftype = Inr True
     \<and> validate_type e (PFloat (Finite r)) ftype = Inr True
     \<and> validate_type e (PFloat NaN) ftype = Inr False
     \<and> validate_type e (PStr s) ftype = Inr (\<exists>k. int_of_string s = Inr k)
     \<and> (s \<noteq> [] \<and> list_all is_digit s \<and> length s \<le> int_max_str_digits \<longrightarrow>
          validate_type e (PStr s) ftype = Inr True)
     \<and> validate_type e PNone ftype = Inr False
     \<and> validate_type e (PList xs) ftype = Inr False
     \<and> validate_type e (PDict kvs) ftype = Inr False
     \<and> SchemaValidation_validate_type e v ftype = validate_type e v ftype"
proof -
  note vt = validate_type_integer [OF assms]
  have str: "validate_type e (PStr s) ftype = Inr (\<exists>k. int_of_string s = Inr k)"
    by (auto simp: vt then_True_def except_ValueError_TypeError_def int_of_string_def Let_def
        split: prod.splits)
  have dig: "validate_type e (PStr s) ftype = Inr True"
    if "s \<noteq> []" "list_all is_digit s" "length s \<le> int_max_str_digits"
    using that by (simp add: str int_of_string_digits)
  have same: "SchemaValidation_validate_type e v ftype = validate_type e v ftype"
    by (simp add: SchemaValidation_validate_type_def validate_type_def
        known_type_check_integer [OF assms])
  show ?thesis
    using str dig same
    by (simp add: vt then_True_def except_ValueError_TypeError_def)
qed

theorem integer_coercible_witness:
  "''INT64'' \<in> set integer_types
   \<and> validate_type example_env (PStr ''28'') ''INT64'' = Inr True
   \<and> validate_type example_env (PFloat (Finite (10001 / 2))) ''INT64'' = Inr True
   \<and> validate_type example_env (PFloat NaN) ''INT64'' = Inr False"
proof -
  have t: "''INT64'' \<in> set integer_types" by (simp add: integer_types_def)
  have d: "''28'' \<noteq> [] \<and> list_all is_digit ''28'' \<and> length ''28'' \<le> int_max_str_digits"
    by (simp add: is_digit_def int_max_str_digits_def)
  show ?thesis
    using t d integer_coercible [OF t, of example_env 0 True "10001 / 2" "''28''" "[]" "[]" PNone]
    by blast
qed

text \<open>
  The claim as stated fails: the float 5000.5 is not integral and is coercible to
  \<^verbatim>\<open>INT64\<close>, since \<^verbatim>\<open>int(5000.5)\<close> returns 5000.
\<close>

theorem integer_coercible_counterexample:
  "validate_type example_env (PFloat (Finite (10001 / 2))) ''INT64'' = Inr True
   \<and> truncate_rat (10001 / 2) = 5000
   \<and> rat_of_int (truncate_rat (10001 / 2)) \<noteq> 10001 / 2"
proof -
  have "\<lfloor>10001 / 2 :: rat\<rfloor> = 5000" by (simp add: floor_eq_iff)
  then show ?thesis
    by (simp add: validate_type_def known_type_check_def then_True_def
        except_ValueError_TypeError_def truncate_rat_def)
qed


section \<open>Properties of parse\_data\<close>

text \<open>
  C8. \<^verbatim>\<open>parse_data\<close> is not total: on the token \<^verbatim>\<open>{[1]: 2}\<close> the literal evaluation raises
  \<^verbatim>\<open>TypeError\<close> (a list is not hashable), which the handler for \<^verbatim>\<open>ValueError\<close> and
  \<^verbatim>\<open>SyntaxError\<close> lets through, so the call raises instead of keeping the token as a string.
\<close>

theorem parse_data_raises_TypeError:
  "parse_data [[PStr ''{[1]: 2}'']] = Inl TypeError"
  by code_simp

text \<open>The malformed literal \<^verbatim>\<open>[1,2\<close> is kept as it is.\<close>

lemma parse_data_malformed_bracket:
  "parse_data [[PStr ''[1,2'']] = Inr [[PStr ''[1,2'']]"
  by code_simp

text \<open>
  C9. \<^verbatim>\<open>hello\<close> is returned unchanged, and so is the malformed \<^verbatim>\<open>[1,2\<close>, a fixed point of
  the parser. The claim for every string on which the literal evaluation fails does not hold
  of the code: on \<^verbatim>\<open>{[1]: 2}\<close> the evaluation fails with \<^verbatim>\<open>TypeError\<close>, which the handler lets
  through, so \<open>parse_item\<close> returns no value that could be parsed again.
\<close>

theorem parse_item_no_fixed_point:
  "parse_item (PStr ''hello'') = Inr (PStr ''hello'')
   \<and> parse_item (PStr ''[1,2'') = Inr (PStr ''[1,2'')
   \<and> literal_eval (PStr ''{[1]: 2}'') = Inl TypeError
   \<and> parse_item (PStr ''{[1]: 2}'') = Inl TypeError"
  by code_simp

end
